theory Spec2Isabelle
  imports Complex_Main
begin

section \<open>Python values, exceptions and the response object\<close>

text \<open>
  The value of \<^verbatim>\<open>r.json()\<close>: a decoded JSON document as Python sees it. A dict is kept as
  the list of its items and read with \<open>map_of\<close>. JSON numbers are the integers; error codes
  and ids of the API are integers, and fractional numbers play no part in \<^verbatim>\<open>vkapi.py\<close>.
\<close>

datatype json =
    JNull
  | JBool bool
  | JInt int
  | JStr string
  | JList "json list"
  | JDict "(string \<times> json) list"

text \<open>The argument of \<^verbatim>\<open>SystemExit\<close>: none, a message, or the caught HTTP error (its status).\<close>

datatype exit_arg = NoArg | ExitMessage string | ExitHTTPError int

text \<open>The exceptions that the code of \<^verbatim>\<open>vkapi.py\<close> raises, catches or lets through.\<close>

datatype pyerr =
    KeyError json
  | TypeError
  | AssertionError string
  | JSONDecodeError
  | ValueError
  | UnboundLocalError
  | SystemExit exit_arg
  | TransportError string

text \<open>
  The part of \<^verbatim>\<open>requests.Response\<close> that the client reads and writes. \<open>body = None\<close> is a
  body that does not decode as JSON (malformed or absent). \<open>reason\<close> is a Python value,
  because the interceptors store whatever \<^verbatim>\<open>error_msg\<close> holds.
\<close>

record response =
  status_code :: int
  reason :: json
  body :: "json option"

text \<open>
  One entry of \<^verbatim>\<open>api_errors.yaml\<close> and the table \<^verbatim>\<open>self.api_errors\<close>, a dict from the
  integer error code to its entry, kept as the list of its items and read with \<open>map_of\<close>.
\<close>

record error_rule =
  action :: string
  MatchedHTTPError :: int

type_synonym error_table = "(int \<times> error_rule) list"

text \<open>Sequencing of statements that may raise: the first exception ends the block.\<close>

definition pybind :: "pyerr + 'a \<Rightarrow> ('a \<Rightarrow> pyerr + 'b) \<Rightarrow> pyerr + 'b" where
  "pybind x f = (case x of Inl e \<Rightarrow> Inl e | Inr v \<Rightarrow> f v)"

text \<open>A list comprehension \<^verbatim>\<open>[f(x) for x in xs]\<close> whose element expression may raise.\<close>

fun comprehension :: "('a \<Rightarrow> pyerr + 'b) \<Rightarrow> 'a list \<Rightarrow> pyerr + 'b list" where
  "comprehension f [] = Inr []"
| "comprehension f (x # xs) =
     pybind (f x) (\<lambda>y. pybind (comprehension f xs) (\<lambda>ys. Inr (y # ys)))"

text \<open>\<^verbatim>\<open>r.json()\<close>: raises a decoding error when the body is not JSON.\<close>

definition json_of :: "response \<Rightarrow> pyerr + json" where
  "json_of r = (case body r of None \<Rightarrow> Inl JSONDecodeError | Some j \<Rightarrow> Inr j)"

text \<open>\<^verbatim>\<open>v[k]\<close> with a string key: only a dict can be read so; a missing key is a KeyError.\<close>

fun getitem :: "json \<Rightarrow> string \<Rightarrow> pyerr + json" where
  "getitem (JDict kvs) k =
     (case map_of kvs k of None \<Rightarrow> Inl (KeyError (JStr k)) | Some v \<Rightarrow> Inr v)"
| "getitem _ k = Inl TypeError"

text \<open>\<^verbatim>\<open>for x in v\<close>: a list gives its elements, a dict its keys, a string its characters.\<close>

fun iterate :: "json \<Rightarrow> pyerr + json list" where
  "iterate (JList xs) = Inr xs"
| "iterate (JDict kvs) = Inr (map (\<lambda>kv. JStr (fst kv)) kvs)"
| "iterate (JStr s) = Inr (map (\<lambda>c. JStr [c]) s)"
| "iterate _ = Inl TypeError"

text \<open>\<^verbatim>\<open>len(v)\<close>.\<close>

fun pylen :: "json \<Rightarrow> pyerr + nat" where
  "pylen (JList xs) = Inr (length xs)"
| "pylen (JDict kvs) = Inr (length kvs)"
| "pylen (JStr s) = Inr (length s)"
| "pylen _ = Inl TypeError"

text \<open>
  The key of the table that a Python value denotes: an integer itself, \<^verbatim>\<open>True\<close> and
  \<^verbatim>\<open>False\<close> the keys 1 and 0 (they are equal to them and hash alike), a list or a dict
  none (unhashable, a TypeError), a string or \<^verbatim>\<open>None\<close> a key that no integer equals.
\<close>

fun table_key :: "json \<Rightarrow> pyerr + int option" where
  "table_key (JInt n) = Inr (Some n)"
| "table_key (JBool b) = Inr (Some (if b then 1 else 0))"
| "table_key (JList xs) = Inl TypeError"
| "table_key (JDict kvs) = Inl TypeError"
| "table_key _ = Inr None"

text \<open>\<^verbatim>\<open>self.api_errors[err_code]\<close>.\<close>

definition table_lookup :: "error_table \<Rightarrow> json \<Rightarrow> pyerr + error_rule" where
  "table_lookup tbl err_code =
     pybind (table_key err_code) (\<lambda>key.
       case key of
         None \<Rightarrow> Inl (KeyError err_code)
       | Some n \<Rightarrow> (case map_of tbl n of None \<Rightarrow> Inl (KeyError err_code) | Some rule \<Rightarrow> Inr rule))"

text \<open>\<^verbatim>\<open>err_code in self.api_errors\<close>.\<close>

definition table_member :: "error_table \<Rightarrow> json \<Rightarrow> pyerr + bool" where
  "table_member tbl err_code =
     pybind (table_key err_code) (\<lambda>key.
       case key of None \<Rightarrow> Inr False | Some n \<Rightarrow> Inr (map_of tbl n \<noteq> None))"

section \<open>The response interceptors\<close>

text \<open>The assignments \<^verbatim>\<open>r.status_code = ...; r.reason = err_msg\<close>.\<close>

definition rewrite :: "response \<Rightarrow> error_rule \<Rightarrow> json \<Rightarrow> response" where
  "rewrite r rule err_msg = r\<lparr>status_code := MatchedHTTPError rule, reason := err_msg\<rparr>"

text \<open>
  What a scanning loop of \<^verbatim>\<open>_handle_execute_errors\<close> leaves: the rewritten response it
  returned, or nothing, with the pair that the names \<^verbatim>\<open>err_code, err_msg\<close> are bound to
  when the loop ends (none when the loop never ran).
\<close>

datatype scan = Found response | Fell_through "(json \<times> json) option"

text \<open>
  The first loop, \<^verbatim>\<open>for err_code, err_msg in err_pairs\<close>: it binds \<^verbatim>\<open>err_code\<close> and
  \<^verbatim>\<open>err_msg\<close> to each pair in turn and returns at the first whose action is "break".
\<close>

fun break_loop ::
  "error_table \<Rightarrow> response \<Rightarrow> (json \<times> json) option \<Rightarrow> (json \<times> json) list \<Rightarrow> pyerr + scan" where
  "break_loop tbl r bound [] = Inr (Fell_through bound)"
| "break_loop tbl r bound ((err_code, err_msg) # ps) =
     pybind (table_lookup tbl err_code) (\<lambda>rule.
       if action rule = ''break'' then Inr (Found (rewrite r rule err_msg))
       else break_loop tbl r (Some (err_code, err_msg)) ps)"

text \<open>
  The second and the third loop, \<^verbatim>\<open>for error_code, error_msg in err_pairs\<close>: they bind
  other names, and their bodies read \<^verbatim>\<open>err_code\<close> and \<^verbatim>\<open>err_msg\<close>, which still hold what
  the first loop left. A name never bound would be an UnboundLocalError.
\<close>

fun stale_loop ::
  "string \<Rightarrow> error_table \<Rightarrow> response \<Rightarrow> (json \<times> json) option \<Rightarrow> (json \<times> json) list
     \<Rightarrow> pyerr + response option" where
  "stale_loop a tbl r bound [] = Inr None"
| "stale_loop a tbl r bound ((error_code, error_msg) # ps) =
     (case bound of
        None \<Rightarrow> Inl UnboundLocalError
      | Some (err_code, err_msg) \<Rightarrow>
          pybind (table_lookup tbl err_code) (\<lambda>rule.
            if action rule = a then Inr (Some (rewrite r rule err_msg))
            else stale_loop a tbl r bound ps))"

text \<open>The element \<^verbatim>\<open>(err["error_code"], err["error_msg"])\<close> of \<^verbatim>\<open>err_pairs\<close>.\<close>

definition err_pair :: "json \<Rightarrow> pyerr + (json \<times> json)" where
  "err_pair err =
     pybind (getitem err ''error_code'') (\<lambda>c.
     pybind (getitem err ''error_msg'') (\<lambda>m. Inr (c, m)))"

text \<open>The elements of the lists \<^verbatim>\<open>actions\<close> and \<^verbatim>\<open>http_errors\<close>.\<close>

definition action_of :: "error_table \<Rightarrow> json \<times> json \<Rightarrow> pyerr + string" where
  "action_of tbl p = pybind (table_lookup tbl (fst p)) (\<lambda>rule. Inr (action rule))"

definition http_error_of :: "error_table \<Rightarrow> json \<times> json \<Rightarrow> pyerr + int" where
  "http_error_of tbl p = pybind (table_lookup tbl (fst p)) (\<lambda>rule. Inr (MatchedHTTPError rule))"

text \<open>The third loop and the assertion after it.\<close>

definition skip_tier ::
  "error_table \<Rightarrow> response \<Rightarrow> (json \<times> json) option \<Rightarrow> (json \<times> json) list \<Rightarrow> pyerr + response" where
  "skip_tier tbl r bound err_pairs =
     pybind (stale_loop ''skip'' tbl r bound err_pairs) (\<lambda>s.
       case s of Some r' \<Rightarrow> Inr r' | None \<Rightarrow> Inl (AssertionError ''Unexpected error''))"

text \<open>The second loop and what follows it.\<close>

definition retry_tier ::
  "error_table \<Rightarrow> response \<Rightarrow> (json \<times> json) option \<Rightarrow> (json \<times> json) list \<Rightarrow> pyerr + response" where
  "retry_tier tbl r bound err_pairs =
     pybind (stale_loop ''retry'' tbl r bound err_pairs) (\<lambda>s.
       case s of Some r' \<Rightarrow> Inr r' | None \<Rightarrow> skip_tier tbl r bound err_pairs)"

text \<open>The three loops in their order: break, retry, skip.\<close>

definition tiered_scan :: "error_table \<Rightarrow> response \<Rightarrow> (json \<times> json) list \<Rightarrow> pyerr + response" where
  "tiered_scan tbl r err_pairs =
     pybind (break_loop tbl r None err_pairs) (\<lambda>s.
       case s of Found r' \<Rightarrow> Inr r' | Fell_through bound \<Rightarrow> retry_tier tbl r bound err_pairs)"

text \<open>The body of the \<^verbatim>\<open>try\<close> block of \<^verbatim>\<open>_handle_execute_errors\<close>.\<close>

definition execute_errors_try :: "error_table \<Rightarrow> response \<Rightarrow> pyerr + response" where
  "execute_errors_try tbl r =
     pybind (json_of r) (\<lambda>j.
     pybind (getitem j ''execute_errors'') (\<lambda>errors.
     pybind (iterate errors) (\<lambda>errs.
     pybind (comprehension err_pair errs) (\<lambda>err_pairs.
     pybind (comprehension (action_of tbl) err_pairs) (\<lambda>actions.
     pybind (comprehension (http_error_of tbl) err_pairs) (\<lambda>http_errors.
     tiered_scan tbl r err_pairs))))))"

text \<open>
  \<^verbatim>\<open>_handle_execute_errors\<close>: the \<^verbatim>\<open>try\<close> block under \<^verbatim>\<open>except KeyError: return r\<close>. No
  statement of the block writes to \<^verbatim>\<open>r\<close> before one that can raise, so the handler
  returns the response as it came.
\<close>

definition handle_execute_errors :: "error_table \<Rightarrow> response \<Rightarrow> pyerr + response" where
  "handle_execute_errors tbl r =
     (case execute_errors_try tbl r of
        Inl (KeyError k) \<Rightarrow> Inr r
      | Inl e \<Rightarrow> Inl e
      | Inr r' \<Rightarrow> Inr r')"

text \<open>The body of the \<^verbatim>\<open>try\<close> block of \<^verbatim>\<open>_handle_api_errors\<close>.\<close>

definition api_errors_try :: "error_table \<Rightarrow> response \<Rightarrow> pyerr + response" where
  "api_errors_try tbl r =
     pybind (json_of r) (\<lambda>j.
     pybind (getitem j ''error'') (\<lambda>err.
     pybind (getitem err ''error_code'') (\<lambda>err_code.
     pybind (json_of r) (\<lambda>j2.
     pybind (getitem j2 ''error'') (\<lambda>err2.
     pybind (getitem err2 ''error_msg'') (\<lambda>err_msg.
     pybind (table_member tbl err_code) (\<lambda>known.
       if \<not> known then Inl (AssertionError ''Unexpected err_code'')
       else pybind (table_lookup tbl err_code) (\<lambda>rule. Inr (rewrite r rule err_msg)))))))))"

text \<open>
  \<^verbatim>\<open>_handle_api_errors\<close>: the \<^verbatim>\<open>try\<close> block under \<^verbatim>\<open>except (AttributeError, KeyError): pass\<close>
  and \<^verbatim>\<open>finally: return r\<close>. A \<^verbatim>\<open>return\<close> in a \<^verbatim>\<open>finally\<close> clause discards the exception
  in flight, whatever it is, so the function always returns: the rewritten response when
  the block ran to its end, the response as it came otherwise.
\<close>

definition handle_api_errors :: "error_table \<Rightarrow> response \<Rightarrow> pyerr + response" where
  "handle_api_errors tbl r =
     (case api_errors_try tbl r of
        Inl e \<Rightarrow> Inr r
      | Inr r' \<Rightarrow> Inr r')"

text \<open>
  \<^verbatim>\<open>s.get(url, params = params)\<close> on the session of \<^verbatim>\<open>__init__\<close>: the transport answers
  the \<open>i\<close>-th request (a response, or an exception of its own), and the two response hooks
  run on the answer in the order they were appended.
\<close>

definition session_get ::
  "error_table \<Rightarrow> (nat \<Rightarrow> pyerr + response) \<Rightarrow> nat \<Rightarrow> pyerr + response" where
  "session_get tbl transport i =
     pybind (transport i) (\<lambda>r.
     pybind (handle_execute_errors tbl r) (\<lambda>r1. handle_api_errors tbl r1))"

section \<open>The dispatch loop\<close>

text \<open>\<^verbatim>\<open>r.raise_for_status()\<close> raises an HTTPError for the statuses 400 to 599.\<close>

definition raises_for_status :: "int \<Rightarrow> bool" where
  "raises_for_status s = (400 \<le> s \<and> s < 600)"

text \<open>
  \<^verbatim>\<open>[self.api_errors[er]["MatchedHTTPError"] for er in self.api_errors
      if self.api_errors[er]["action"] == a]\<close>: the keys of the dict in turn, each looked up.
\<close>

definition rule_at :: "error_table \<Rightarrow> int \<Rightarrow> error_rule list" where
  "rule_at tbl er = (case map_of tbl er of None \<Rightarrow> [] | Some rule \<Rightarrow> [rule])"

definition matched_statuses :: "error_table \<Rightarrow> string \<Rightarrow> int list" where
  "matched_statuses tbl a =
     [MatchedHTTPError rule. er \<leftarrow> map fst tbl, rule \<leftarrow> rule_at tbl er, action rule = a]"

text \<open>
  The local state of one call of \<^verbatim>\<open>_retry_wrapper\<close>: the counter \<^verbatim>\<open>retries\<close>, the number
  of requests sent, and the delays passed to \<^verbatim>\<open>time.sleep\<close>, oldest first. Delays are exact
  rationals: a product of the backoff factor and a power of two.
\<close>

record loop_state =
  retries :: nat
  calls :: nat
  slept :: "rat list"

text \<open>How a call ends: \<^verbatim>\<open>return r\<close>, \<^verbatim>\<open>return None\<close>, or an exception leaving the function.\<close>

datatype outcome = Returned response | ReturnedNone | Raised pyerr

datatype step = Done outcome loop_state | Again loop_state

text \<open>
  The handler \<^verbatim>\<open>except requests.exceptions.HTTPError as err\<close>, with \<open>r\<close> the response of the
  error. \<^verbatim>\<open>time.sleep\<close> refuses a negative delay with a ValueError.
\<close>

definition on_http_error :: "error_table \<Rightarrow> rat \<Rightarrow> response \<Rightarrow> loop_state \<Rightarrow> step" where
  "on_http_error tbl backoff_factor r st =
     (let st1 = st\<lparr>retries := retries st + 1\<rparr> in
      if status_code r \<in> set (matched_statuses tbl ''skip'') then Done ReturnedNone st1
      else if status_code r \<in> set (matched_statuses tbl ''break'') then
        Done (Raised (SystemExit NoArg)) st1
      else if status_code r \<in> set (matched_statuses tbl ''retry'') then
        (let wait = backoff_factor * 2 ^ retries st1 in
         if wait < 0 then Done (Raised ValueError) st1
         else Again (st1\<lparr>slept := slept st1 @ [wait]\<rparr>))
      else Done (Raised (SystemExit (ExitHTTPError (status_code r)))) st1)"

text \<open>
  What follows the loop once \<^verbatim>\<open>success\<close> is set: \<^verbatim>\<open>logger.debug(r.json())\<close>, which
  decodes the body whatever the log level, and \<^verbatim>\<open>return r\<close>.
\<close>

definition on_success :: "response \<Rightarrow> outcome" where
  "on_success r = (case json_of r of Inl e \<Rightarrow> Raised e | Inr j \<Rightarrow> Returned r)"

text \<open>
  One pass through the body of \<^verbatim>\<open>while not success\<close>: the request, \<^verbatim>\<open>raise_for_status\<close>,
  and the handler. An exception of \<^verbatim>\<open>s.get\<close> (of the transport or of a response hook) is
  not an HTTPError and leaves the function.
\<close>

definition attempt ::
  "error_table \<Rightarrow> rat \<Rightarrow> (nat \<Rightarrow> pyerr + response) \<Rightarrow> loop_state \<Rightarrow> step" where
  "attempt tbl backoff_factor get st =
     (let st' = st\<lparr>calls := calls st + 1\<rparr> in
      case get (calls st) of
        Inl e \<Rightarrow> Done (Raised e) st'
      | Inr r \<Rightarrow>
          if raises_for_status (status_code r) then on_http_error tbl backoff_factor r st'
          else Done (on_success r) st')"

text \<open>The loop \<^verbatim>\<open>while not success\<close>. It has no bound: a run that never ends is \<open>None\<close>.\<close>

partial_function (option) retry_loop ::
  "error_table \<Rightarrow> rat \<Rightarrow> (nat \<Rightarrow> pyerr + response) \<Rightarrow> loop_state
     \<Rightarrow> (outcome \<times> loop_state) option" where
  "retry_loop tbl backoff_factor get st =
     (case attempt tbl backoff_factor get st of
        Done out st' \<Rightarrow> Some (out, st')
      | Again st' \<Rightarrow> retry_loop tbl backoff_factor get st')"

definition initial :: loop_state where
  "initial = \<lparr>retries = 0, calls = 0, slept = []\<rparr>"

text \<open>
  \<^verbatim>\<open>_retry_wrapper(method, params, backoff_factor)\<close> on the session with its two hooks; the
  transport stands for the server's answers to the requests for \<^verbatim>\<open>method\<close> and \<^verbatim>\<open>params\<close>.
\<close>

definition retry_wrapper ::
  "error_table \<Rightarrow> (nat \<Rightarrow> pyerr + response) \<Rightarrow> rat \<Rightarrow> (outcome \<times> loop_state) option" where
  "retry_wrapper tbl transport backoff_factor =
     retry_loop tbl backoff_factor (session_get tbl transport) initial"

section \<open>The domain methods\<close>

text \<open>What \<^verbatim>\<open>execute\<close> does with the result of \<^verbatim>\<open>_retry_wrapper\<close>.\<close>

definition execute_result :: "outcome \<Rightarrow> pyerr + json" where
  "execute_result out =
     (case out of
        Raised e \<Rightarrow> Inl e
      | ReturnedNone \<Rightarrow> Inr (JList [])
      | Returned r \<Rightarrow> pybind (json_of r) (\<lambda>j. getitem j ''response''))"

definition execute :: "error_table \<Rightarrow> (nat \<Rightarrow> pyerr + response) \<Rightarrow> (pyerr + json) option" where
  "execute tbl transport =
     map_option (\<lambda>res. execute_result (fst res)) (retry_wrapper tbl transport (9 / 100))"

text \<open>The \<^verbatim>\<open>try\<close> block of \<^verbatim>\<open>get_users_ids\<close> and the method.\<close>

definition users_ids_try :: "response \<Rightarrow> pyerr + json" where
  "users_ids_try r =
     pybind (json_of r) (\<lambda>j.
     pybind (getitem j ''response'') (\<lambda>friends.
     pybind (iterate friends) (\<lambda>users.
     pybind (comprehension (\<lambda>user. getitem user ''id'') users) (\<lambda>friends_uids.
     Inr (JList friends_uids)))))"

definition get_users_ids_result :: "outcome \<Rightarrow> pyerr + json" where
  "get_users_ids_result out =
     (case out of
        Raised e \<Rightarrow> Inl e
      | ReturnedNone \<Rightarrow> Inr (JList [])
      | Returned r \<Rightarrow>
          (case users_ids_try r of
             Inl (KeyError k) \<Rightarrow>
               pybind (json_of r) (\<lambda>j.
                 Inl (SystemExit (ExitMessage
                   ''Unexpected keys in response. `response` are Expected'')))
           | Inl e \<Rightarrow> Inl e
           | Inr ids \<Rightarrow> Inr ids))"

definition get_users_ids ::
  "error_table \<Rightarrow> (nat \<Rightarrow> pyerr + response) \<Rightarrow> (pyerr + json) option" where
  "get_users_ids tbl transport =
     map_option (\<lambda>res. get_users_ids_result (fst res)) (retry_wrapper tbl transport (9 / 100))"

text \<open>The \<^verbatim>\<open>try\<close> block of \<^verbatim>\<open>get_friends\<close> (the log line takes \<^verbatim>\<open>len(friends)\<close>) and the method.\<close>

definition friends_try :: "response \<Rightarrow> pyerr + json" where
  "friends_try r =
     pybind (json_of r) (\<lambda>j.
     pybind (getitem j ''response'') (\<lambda>resp.
     pybind (getitem resp ''items'') (\<lambda>friends.
     pybind (pylen friends) (\<lambda>n.
     Inr friends))))"

definition get_friends_result :: "outcome \<Rightarrow> pyerr + json" where
  "get_friends_result out =
     (case out of
        Raised e \<Rightarrow> Inl e
      | ReturnedNone \<Rightarrow> Inr (JList [])
      | Returned r \<Rightarrow>
          (case friends_try r of
             Inl (KeyError k) \<Rightarrow>
               pybind (json_of r) (\<lambda>j.
                 Inl (SystemExit (ExitMessage
                   ''Unexpected keys in response. `response.items` are Expected'')))
           | Inl e \<Rightarrow> Inl e
           | Inr friends \<Rightarrow> Inr friends))"

definition get_friends ::
  "error_table \<Rightarrow> (nat \<Rightarrow> pyerr + response) \<Rightarrow> (pyerr + json) option" where
  "get_friends tbl transport =
     map_option (\<lambda>res. get_friends_result (fst res)) (retry_wrapper tbl transport (9 / 100))"

section \<open>Notions used in the statements\<close>

text \<open>
  The statuses on which a pass of the loop reaches its retry branch: \<^verbatim>\<open>raise_for_status\<close>
  raises, the skip test and the break test fail, and the retry test succeeds.
\<close>

definition retry_classified :: "error_table \<Rightarrow> int \<Rightarrow> bool" where
  "retry_classified tbl s =
     (raises_for_status s \<and> s \<notin> set (matched_statuses tbl ''skip'')
        \<and> s \<notin> set (matched_statuses tbl ''break'') \<and> s \<in> set (matched_statuses tbl ''retry''))"

text \<open>
  The loop stopped after at most \<open>n\<close> passes: \<open>Again st\<close> when it is still running then, in
  the state \<open>st\<close>.
\<close>

fun run_passes ::
  "error_table \<Rightarrow> rat \<Rightarrow> (nat \<Rightarrow> pyerr + response) \<Rightarrow> nat \<Rightarrow> loop_state \<Rightarrow> step" where
  "run_passes tbl backoff_factor get 0 st = Again st"
| "run_passes tbl backoff_factor get (Suc n) st =
     (case attempt tbl backoff_factor get st of
        Done out st' \<Rightarrow> Done out st'
      | Again st' \<Rightarrow> run_passes tbl backoff_factor get n st')"

text \<open>The decoded body is a JSON object that has the key \<open>k\<close>.\<close>

definition has_field :: "response \<Rightarrow> string \<Rightarrow> bool" where
  "has_field r k = (case body r of Some (JDict kvs) \<Rightarrow> map_of kvs k \<noteq> None | _ \<Rightarrow> False)"

text \<open>
  Shorthands for the inputs of the scenarios: the server that gives the listed answers in
  turn and the last one ever after, an \<^verbatim>\<open>{error_code, error_msg}\<close> object, an answer
  \<^verbatim>\<open>200 OK\<close> with a JSON body, and an entry of the error table.
\<close>

definition answers :: "response list \<Rightarrow> response \<Rightarrow> nat \<Rightarrow> pyerr + response" where
  "answers rs r i = (if i < length rs then Inr (rs ! i) else Inr r)"

definition error_object :: "int \<Rightarrow> string \<Rightarrow> json" where
  "error_object c m = JDict [(''error_code'', JInt c), (''error_msg'', JStr m)]"

definition ok_response :: "json \<Rightarrow> response" where
  "ok_response j = \<lparr>status_code = 200, reason = JStr ''OK'', body = Some j\<rparr>"

definition entry :: "string \<Rightarrow> int \<Rightarrow> error_rule" where
  "entry a s = \<lparr>action = a, MatchedHTTPError = s\<rparr>"

section \<open>Basic facts\<close>

lemmas interceptor_defs =
  handle_execute_errors_def execute_errors_try_def tiered_scan_def retry_tier_def skip_tier_def
  err_pair_def action_of_def http_error_of_def table_lookup_def table_member_def pybind_def
  json_of_def rewrite_def handle_api_errors_def api_errors_try_def session_get_def

lemmas sample_defs = error_object_def ok_response_def entry_def

lemmas eval_defs =
  interceptor_defs sample_defs retry_classified_def raises_for_status_def
  matched_statuses_def rule_at_def answers_def

lemmas method_defs =
  execute_def get_users_ids_def get_friends_def execute_result_def
  get_users_ids_result_def get_friends_result_def

text \<open>A status is in the list of an action exactly when a rule of the table maps to it.\<close>

lemma matched_statuses_iff:
  "s \<in> set (matched_statuses tbl a) \<longleftrightarrow>
     (\<exists>er rule. map_of tbl er = Some rule \<and> action rule = a \<and> MatchedHTTPError rule = s)"
proof
  assume "s \<in> set (matched_statuses tbl a)"
  then show "\<exists>er rule. map_of tbl er = Some rule \<and> action rule = a \<and> MatchedHTTPError rule = s"
    by (auto simp: matched_statuses_def rule_at_def split: option.splits) metis
next
  assume "\<exists>er rule. map_of tbl er = Some rule \<and> action rule = a \<and> MatchedHTTPError rule = s"
  then obtain er rule
    where h: "map_of tbl er = Some rule" "action rule = a" "MatchedHTTPError rule = s"
    by blast
  from h(1) have "(er, rule) \<in> set tbl" by (rule map_of_SomeD)
  then have "er \<in> set (map fst tbl)" by force
  moreover have "rule \<in> set (rule_at tbl er)" using h(1) by (simp add: rule_at_def)
  ultimately show "s \<in> set (matched_statuses tbl a)"
    using h(2,3) by (auto simp: matched_statuses_def)
qed

text \<open>One unfolding of the loop, by what the pass does.\<close>

lemma retry_loop_Done:
  "attempt tbl bf get st = Done out st' \<Longrightarrow> retry_loop tbl bf get st = Some (out, st')"
  by (subst retry_loop.simps) simp

lemma retry_loop_Again:
  "attempt tbl bf get st = Again st' \<Longrightarrow> retry_loop tbl bf get st = retry_loop tbl bf get st'"
  by (subst retry_loop.simps) simp

text \<open>The loop is its first \<open>n\<close> passes followed by the loop from the state they leave.\<close>

lemma retry_loop_run_passes:
  "retry_loop tbl bf get st =
     (case run_passes tbl bf get n st of
        Done out st' \<Rightarrow> Some (out, st')
      | Again st' \<Rightarrow> retry_loop tbl bf get st')"
proof (induction n arbitrary: st)
  case 0
  show ?case by simp
next
  case (Suc n)
  show ?case
  proof (cases "attempt tbl bf get st")
    case (Done out st')
    then show ?thesis by (simp add: retry_loop_Done)
  next
    case (Again st')
    then show ?thesis using Suc [of st'] by (simp add: retry_loop_Again)
  qed
qed


text \<open>A pass on a retry-classified answer sleeps and goes round again.\<close>

lemma attempt_retry_classified:
  assumes "get (calls st) = Inr r" and "retry_classified tbl (status_code r)" and "0 \<le> bf"
  shows "attempt tbl bf get st =
           Again \<lparr>retries = Suc (retries st), calls = Suc (calls st),
                  slept = slept st @ [bf * 2 ^ Suc (retries st)]\<rparr>"
  using assms by (simp add: attempt_def on_http_error_def retry_classified_def Let_def not_less)

lemma run_passes_retry_classified:
  assumes "0 \<le> bf"
    and "\<forall>i<n. \<exists>r. get (calls st + i) = Inr r \<and> retry_classified tbl (status_code r)"
  shows "run_passes tbl bf get n st =
           Again \<lparr>retries = retries st + n, calls = calls st + n,
                  slept = slept st @ map (\<lambda>k. bf * 2 ^ Suc k) [retries st..<retries st + n]\<rparr>"
  using assms(2)
proof (induction n arbitrary: st)
  case 0
  show ?case by simp
next
  case (Suc n)
  from Suc.prems obtain r where r: "get (calls st) = Inr r" "retry_classified tbl (status_code r)"
    by force
  let ?st' = "\<lparr>retries = Suc (retries st), calls = Suc (calls st),
                  slept = slept st @ [bf * 2 ^ Suc (retries st)]\<rparr>"
  have a: "attempt tbl bf get st = Again ?st'"
    using r assms(1) by (rule attempt_retry_classified)
  have "\<forall>i<n. \<exists>r. get (calls ?st' + i) = Inr r \<and> retry_classified tbl (status_code r)"
    using Suc.prems by (auto dest: spec [where x = "Suc _"])
  from Suc.IH [OF this] a show ?case
    by (simp add: upt_conv_Cons)
qed

lemma retry_loop_after_retries:
  assumes "0 \<le> bf"
    and "\<forall>i<n. \<exists>r. get i = Inr r \<and> retry_classified tbl (status_code r)"
  shows "retry_loop tbl bf get initial =
           retry_loop tbl bf get
             \<lparr>retries = n, calls = n, slept = map (\<lambda>k. bf * 2 ^ Suc k) [0..<n]\<rparr>"
proof -
  have "run_passes tbl bf get n initial =
          Again \<lparr>retries = n, calls = n, slept = map (\<lambda>k. bf * 2 ^ Suc k) [0..<n]\<rparr>"
    using run_passes_retry_classified [of bf n get initial tbl] assms
    by (simp add: initial_def)
  then show ?thesis
    using retry_loop_run_passes [of tbl bf get initial n] by simp
qed

text \<open>A pass on an answer that matches a skip rule, and one that matches a break rule only.\<close>

lemma attempt_skip:
  assumes "get (calls st) = Inr r" and "raises_for_status (status_code r)"
    and "status_code r \<in> set (matched_statuses tbl ''skip'')"
  shows "attempt tbl bf get st =
           Done ReturnedNone (st\<lparr>retries := Suc (retries st), calls := Suc (calls st)\<rparr>)"
  using assms by (simp add: attempt_def on_http_error_def)

lemma attempt_break:
  assumes "get (calls st) = Inr r" and "raises_for_status (status_code r)"
    and "status_code r \<notin> set (matched_statuses tbl ''skip'')"
    and "status_code r \<in> set (matched_statuses tbl ''break'')"
  shows "attempt tbl bf get st =
           Done (Raised (SystemExit NoArg)) (st\<lparr>retries := Suc (retries st), calls := Suc (calls st)\<rparr>)"
  using assms by (simp add: attempt_def on_http_error_def)





section \<open>Facts about the interceptors\<close>



text \<open>Without a break error, the last error of the list alone decides.\<close>

lemma break_loop_no_break:
  assumes "\<forall>p\<in>set ps. \<exists>rl. table_lookup tbl (fst p) = Inr rl \<and> action rl \<noteq> ''break''"
  shows "break_loop tbl r bound ps = Inr (Fell_through (if ps = [] then bound else Some (last ps)))"
  using assms
proof (induction ps arbitrary: bound)
  case Nil
  show ?case by simp
next
  case (Cons p ps)
  obtain c m where p: "p = (c, m)" by (cases p)
  from Cons.prems p obtain rl where "table_lookup tbl c = Inr rl" "action rl \<noteq> ''break''"
    by auto
  moreover have "break_loop tbl r (Some (c, m)) ps =
      Inr (Fell_through (if ps = [] then Some (c, m) else Some (last ps)))"
    using Cons.prems by (intro Cons.IH) simp
  ultimately show ?case by (simp add: p pybind_def)
qed

lemma stale_loop_nonempty:
  assumes "ps \<noteq> []" and "table_lookup tbl c = Inr rl"
  shows "stale_loop a tbl r (Some (c, m)) ps =
           Inr (if action rl = a then Some (rewrite r rl m) else None)"
  using assms(1)
proof (induction ps)
  case Nil
  then show ?case by simp
next
  case (Cons p ps)
  obtain c' m' where p: "p = (c', m')" by (cases p)
  show ?case
  proof (cases "ps = []")
    case True
    then show ?thesis using assms(2) by (simp add: p pybind_def)
  next
    case False
    from Cons.IH [OF this] show ?thesis using assms(2) by (simp add: p pybind_def)
  qed
qed

lemma tiered_scan_last_decides:
  assumes "\<forall>p\<in>set ps. \<exists>rl. table_lookup tbl (fst p) = Inr rl \<and> action rl \<noteq> ''break''"
    and "ps \<noteq> []" and "last ps = (c, m)" and "table_lookup tbl c = Inr rl"
  shows "tiered_scan tbl r ps =
           (if action rl = ''retry'' \<or> action rl = ''skip'' then Inr (rewrite r rl m)
            else Inl (AssertionError ''Unexpected error''))"
  using break_loop_no_break [OF assms(1), of r None] assms(2,3)
    stale_loop_nonempty [OF assms(2,4), of _ r m]
  by (simp add: tiered_scan_def retry_tier_def skip_tier_def pybind_def)








section \<open>The embedded-error interceptor\<close>

text \<open>
  C1. The embedded-error interceptor is to take status and reason from the first error
  whose action is break, else from the first whose action is retry, else from the first
  whose action is skip, whatever the order of the list. On the list of a retry error
  (code 1, status 503) followed by a skip error (code 2, status 404) the code takes them
  from the skip error: its second and third loop read the names that the first loop left
  bound to the last pair (\<open>tiered_scan_last_decides\<close>). On the same two errors in the
  other order it takes them from the retry error, so the result depends on the order.
\<close>

theorem execute_errors_takes_last_not_first_retry:
  "handle_execute_errors [(1, entry ''retry'' 503), (2, entry ''skip'' 404)]
     (ok_response (JDict [(''execute_errors'', JList [error_object 1 ''a'', error_object 2 ''b''])]))
   = Inr ((ok_response
            (JDict [(''execute_errors'', JList [error_object 1 ''a'', error_object 2 ''b''])]))
            \<lparr>status_code := 404, reason := JStr ''b''\<rparr>)
   \<and> handle_execute_errors [(1, entry ''retry'' 503), (2, entry ''skip'' 404)]
     (ok_response (JDict [(''execute_errors'', JList [error_object 2 ''b'', error_object 1 ''a''])]))
   = Inr ((ok_response
            (JDict [(''execute_errors'', JList [error_object 2 ''b'', error_object 1 ''a''])]))
            \<lparr>status_code := 503, reason := JStr ''a''\<rparr>)"
  by (simp add: interceptor_defs sample_defs)

text \<open>
  C2. An embedded error whose code is not in the table is to be a fatal fault, never a
  response returned with its status unchanged. With the table of code 100 only and an
  embedded error of code 999, the interceptor returns the response as it came (the
  KeyError of the table lookup is caught by the handler meant for a missing field), and
  the dispatch loop then returns that response as a success after one request.
\<close>

theorem execute_errors_unmapped_code_returned_unchanged:
  "handle_execute_errors [(100, entry ''retry'' 503)]
     (ok_response (JDict [(''execute_errors'', JList [error_object 999 ''x''])]))
   = Inr (ok_response (JDict [(''execute_errors'', JList [error_object 999 ''x''])]))
   \<and> retry_wrapper [(100, entry ''retry'' 503)]
     (answers [] (ok_response (JDict [(''execute_errors'', JList [error_object 999 ''x''])])))
     (9 / 100)
   = Some (Returned (ok_response (JDict [(''execute_errors'', JList [error_object 999 ''x''])])),
           \<lparr>retries = 0, calls = 1, slept = []\<rparr>)"
proof
  show "handle_execute_errors [(100, entry ''retry'' 503)]
     (ok_response (JDict [(''execute_errors'', JList [error_object 999 ''x''])]))
   = Inr (ok_response (JDict [(''execute_errors'', JList [error_object 999 ''x''])]))"
    by (simp add: interceptor_defs sample_defs)
  show "retry_wrapper [(100, entry ''retry'' 503)]
     (answers [] (ok_response (JDict [(''execute_errors'', JList [error_object 999 ''x''])])))
     (9 / 100)
   = Some (Returned (ok_response (JDict [(''execute_errors'', JList [error_object 999 ''x''])])),
           \<lparr>retries = 0, calls = 1, slept = []\<rparr>)"
    unfolding retry_wrapper_def
    by (rule retry_loop_Done) (simp add: attempt_def on_success_def initial_def eval_defs)
qed

section \<open>The top-level-error interceptor\<close>

text \<open>The top-level-error interceptor returns on every input: its \<^verbatim>\<open>finally\<close> clause returns.\<close>

lemma handle_api_errors_returns: "\<exists>r'. handle_api_errors tbl r = Inr r'"
  by (simp add: handle_api_errors_def split: sum.splits)

text \<open>When the code of the top-level error is in the table, status and reason are rewritten.\<close>

lemma handle_api_errors_mapped:
  assumes "body r = Some (JDict kvs)" and "map_of kvs ''error'' = Some (JDict e)"
    and "map_of e ''error_code'' = Some (JInt c)" and "map_of e ''error_msg'' = Some m"
    and "map_of tbl c = Some rl"
  shows "handle_api_errors tbl r = Inr (r\<lparr>status_code := MatchedHTTPError rl, reason := m\<rparr>)"
  using assms by (simp add: interceptor_defs)

text \<open>
  C3. A top-level error whose code is in the table rewrites status and reason; one whose
  code is not in the table is to raise an unexpected-state fault rather than return the
  response unchanged. With the table of code 100 only and a top-level error of code 999,
  the interceptor returns the response as it came: the assertion is raised, and the
  \<^verbatim>\<open>return\<close> of the \<^verbatim>\<open>finally\<close> clause discards it, as it does every exception
  (\<open>handle_api_errors_returns\<close>).
\<close>

theorem api_errors_unmapped_code_returned_unchanged:
  "handle_api_errors [(100, entry ''retry'' 503)]
     (ok_response (JDict [(''error'', error_object 999 ''x'')]))
   = Inr (ok_response (JDict [(''error'', error_object 999 ''x'')]))"
  by (simp add: interceptor_defs sample_defs)

text \<open>
  C7, as the code has it. A response whose body has neither an \<^verbatim>\<open>execute_errors\<close> field
  nor an \<^verbatim>\<open>error\<close> field passes the top-level-error interceptor unchanged, whatever the
  body is (malformed and absent bodies included); it passes the embedded-error
  interceptor, and so the two hooks of the session, unchanged when the body decodes to a
  JSON object.
\<close>

theorem interceptors_noop_without_error_fields:
  assumes "\<not> has_field r ''execute_errors''" and "\<not> has_field r ''error''"
  shows "handle_api_errors tbl r = Inr r
         \<and> ((\<exists>kvs. body r = Some (JDict kvs)) \<longrightarrow>
              handle_execute_errors tbl r = Inr r \<and> session_get tbl (answers [] r) i = Inr r)"
proof -
  have api: "handle_api_errors tbl r = Inr r"
  proof (cases "body r")
    case None
    then show ?thesis by (simp add: interceptor_defs)
  next
    case (Some j)
    then show ?thesis using assms(2)
      by (cases j) (simp_all add: interceptor_defs has_field_def)
  qed
  have exe: "handle_execute_errors tbl r = Inr r" if "body r = Some (JDict kvs)" for kvs
    using that assms(1) by (simp add: interceptor_defs has_field_def)
  from api exe show ?thesis
    by (auto simp: session_get_def answers_def pybind_def)
qed

text \<open>The answer \<^verbatim>\<open>200 OK\<close> with the body \<^verbatim>\<open>{"response": []}\<close> passes both interceptors.\<close>

theorem interceptors_noop_without_error_fields_witness:
  "handle_api_errors [(100, entry ''retry'' 503)] (ok_response (JDict [(''response'', JList [])]))
     = Inr (ok_response (JDict [(''response'', JList [])]))
   \<and> handle_execute_errors [(100, entry ''retry'' 503)] (ok_response (JDict [(''response'', JList [])]))
     = Inr (ok_response (JDict [(''response'', JList [])]))
   \<and> session_get [(100, entry ''retry'' 503)]
        (answers [] (ok_response (JDict [(''response'', JList [])]))) 0
     = Inr (ok_response (JDict [(''response'', JList [])]))"
proof -
  let ?r = "ok_response (JDict [(''response'', JList [])])"
  have 1: "\<not> has_field ?r ''execute_errors''" by (simp add: has_field_def sample_defs)
  have 2: "\<not> has_field ?r ''error''" by (simp add: has_field_def sample_defs)
  have 3: "\<exists>kvs. body ?r = Some (JDict kvs)" by (simp add: sample_defs)
  show ?thesis
    using interceptors_noop_without_error_fields [OF 1 2, of "[(100, entry ''retry'' 503)]" 0] 3
    by blast
qed

text \<open>
  On a body that does not decode, which has neither field, the embedded-error interceptor
  raises: its handler catches a KeyError only.
\<close>

theorem execute_errors_raises_on_undecodable_body:
  "\<not> has_field \<lparr>status_code = 200, reason = JStr ''OK'', body = None\<rparr> ''execute_errors''
   \<and> \<not> has_field \<lparr>status_code = 200, reason = JStr ''OK'', body = None\<rparr> ''error''
   \<and> handle_execute_errors [] \<lparr>status_code = 200, reason = JStr ''OK'', body = None\<rparr>
       = Inl JSONDecodeError"
  by (simp add: interceptor_defs has_field_def)

section \<open>The backoff of the dispatch loop\<close>



section \<open>Skip and break in the dispatch loop\<close>

text \<open>
  C5, as the code has it. When an answer of a call has, after the interceptors, a status
  for which \<^verbatim>\<open>raise_for_status\<close> raises (400 to 599) and which is the status of a skip rule,
  the loop returns \<^verbatim>\<open>None\<close> at once, with no sleep and no further request, and
  \<^verbatim>\<open>execute\<close>, \<^verbatim>\<open>get_users_ids\<close> and \<^verbatim>\<open>get_friends\<close> return the empty list. The answers
  before it are the retry-classified ones of the call, if any.
\<close>

theorem skip_returns_no_result:
  assumes "0 \<le> bf"
    and "\<forall>i<n. \<exists>r'. session_get tbl transport i = Inr r' \<and> retry_classified tbl (status_code r')"
    and "session_get tbl transport n = Inr r"
    and "raises_for_status (status_code r)"
    and "status_code r \<in> set (matched_statuses tbl ''skip'')"
  shows "retry_wrapper tbl transport bf =
           Some (ReturnedNone,
                 \<lparr>retries = Suc n, calls = Suc n, slept = map (\<lambda>k. bf * 2 ^ Suc k) [0..<n]\<rparr>)
         \<and> execute tbl transport = Some (Inr (JList []))
         \<and> get_users_ids tbl transport = Some (Inr (JList []))
         \<and> get_friends tbl transport = Some (Inr (JList []))"
proof -
  have loop: "retry_wrapper tbl transport b =
           Some (ReturnedNone,
                 \<lparr>retries = Suc n, calls = Suc n, slept = map (\<lambda>k. b * 2 ^ Suc k) [0..<n]\<rparr>)"
    if "0 \<le> b" for b
  proof -
    let ?st = "\<lparr>retries = n, calls = n, slept = map (\<lambda>k. b * 2 ^ Suc k) [0..<n]\<rparr>"
    have "attempt tbl b (session_get tbl transport) ?st =
            Done ReturnedNone (?st\<lparr>retries := Suc (retries ?st), calls := Suc (calls ?st)\<rparr>)"
      using assms(3-5) by (intro attempt_skip) simp_all
    then have "retry_loop tbl b (session_get tbl transport) ?st =
            Some (ReturnedNone, ?st\<lparr>retries := Suc (retries ?st), calls := Suc (calls ?st)\<rparr>)"
      by (rule retry_loop_Done)
    then show ?thesis
      using retry_loop_after_retries [OF that assms(2)] by (simp add: retry_wrapper_def)
  qed
  have "(0::rat) \<le> 9 / 100" by simp
  from loop [OF this] loop [OF assms(1)] show ?thesis
    by (simp add: method_defs)
qed

text \<open>
  A retry error and then a skip error (status 404): one sleep for the retry, then
  \<^verbatim>\<open>None\<close> from the loop and the empty list from each method.
\<close>

theorem skip_returns_no_result_witness:
  "retry_wrapper [(100, entry ''retry'' 503), (200, entry ''skip'' 404)]
     (answers [ok_response (JDict [(''error'', error_object 100 ''busy'')])]
        (ok_response (JDict [(''error'', error_object 200 ''gone'')]))) (9 / 100)
   = Some (ReturnedNone, \<lparr>retries = 2, calls = 2, slept = [18 / 100]\<rparr>)
   \<and> execute [(100, entry ''retry'' 503), (200, entry ''skip'' 404)]
     (answers [ok_response (JDict [(''error'', error_object 100 ''busy'')])]
        (ok_response (JDict [(''error'', error_object 200 ''gone'')]))) = Some (Inr (JList []))
   \<and> get_users_ids [(100, entry ''retry'' 503), (200, entry ''skip'' 404)]
     (answers [ok_response (JDict [(''error'', error_object 100 ''busy'')])]
        (ok_response (JDict [(''error'', error_object 200 ''gone'')]))) = Some (Inr (JList []))
   \<and> get_friends [(100, entry ''retry'' 503), (200, entry ''skip'' 404)]
     (answers [ok_response (JDict [(''error'', error_object 100 ''busy'')])]
        (ok_response (JDict [(''error'', error_object 200 ''gone'')]))) = Some (Inr (JList []))"
proof -
  let ?tbl = "[(100, entry ''retry'' 503), (200, entry ''skip'' 404)]"
  let ?transport = "answers [ok_response (JDict [(''error'', error_object 100 ''busy'')])]
        (ok_response (JDict [(''error'', error_object 200 ''gone'')]))"
  let ?r = "(ok_response (JDict [(''error'', error_object 200 ''gone'')]))
              \<lparr>status_code := 404, reason := JStr ''gone''\<rparr>"
  have 1: "(0::rat) \<le> 9 / 100" by simp
  have 2: "\<forall>i<1. \<exists>r'. session_get ?tbl ?transport i = Inr r' \<and> retry_classified ?tbl (status_code r')"
    by (simp add: eval_defs)
  have 3: "session_get ?tbl ?transport 1 = Inr ?r"
    by (simp add: eval_defs)
  have 4: "raises_for_status (status_code ?r)"
    by (simp add: raises_for_status_def sample_defs)
  have 5: "status_code ?r \<in> set (matched_statuses ?tbl ''skip'')"
    by (simp add: eval_defs)
  show ?thesis
    using skip_returns_no_result [OF 1 2 3 4 5] by simp
qed

text \<open>
  A skip rule whose status is 204: the status of the answer matches the rule, but
  \<^verbatim>\<open>raise_for_status\<close> does not raise on it, so the loop returns the response as a
  success, and \<^verbatim>\<open>get_friends\<close> ends the process on its shape.
\<close>

theorem skip_status_outside_error_range_is_success:
  "session_get [(200, entry ''skip'' 204)]
     (answers [] (ok_response (JDict [(''error'', error_object 200 ''gone'')]))) 0
   = Inr ((ok_response (JDict [(''error'', error_object 200 ''gone'')]))
            \<lparr>status_code := 204, reason := JStr ''gone''\<rparr>)
   \<and> 204 \<in> set (matched_statuses [(200, entry ''skip'' 204)] ''skip'')
   \<and> retry_wrapper [(200, entry ''skip'' 204)]
        (answers [] (ok_response (JDict [(''error'', error_object 200 ''gone'')]))) (9 / 100)
      = Some (Returned ((ok_response (JDict [(''error'', error_object 200 ''gone'')]))
                          \<lparr>status_code := 204, reason := JStr ''gone''\<rparr>),
              \<lparr>retries = 0, calls = 1, slept = []\<rparr>)
   \<and> get_friends [(200, entry ''skip'' 204)]
        (answers [] (ok_response (JDict [(''error'', error_object 200 ''gone'')])))
      = Some (Inl (SystemExit (ExitMessage
          ''Unexpected keys in response. `response.items` are Expected'')))"
proof -
  let ?tbl = "[(200, entry ''skip'' 204)]"
  let ?transport = "answers [] (ok_response (JDict [(''error'', error_object 200 ''gone'')]))"
  let ?r = "(ok_response (JDict [(''error'', error_object 200 ''gone'')]))
              \<lparr>status_code := 204, reason := JStr ''gone''\<rparr>"
  have a: "session_get ?tbl ?transport 0 = Inr ?r"
    by (simp add: eval_defs)
  have b: "204 \<in> set (matched_statuses ?tbl ''skip'')"
    by (simp add: eval_defs)
  have c: "retry_wrapper ?tbl ?transport (9 / 100) =
             Some (Returned ?r, \<lparr>retries = 0, calls = 1, slept = []\<rparr>)"
    unfolding retry_wrapper_def
    by (rule retry_loop_Done) (simp add: attempt_def initial_def on_success_def eval_defs)
  have d: "get_friends ?tbl ?transport = Some (Inl (SystemExit (ExitMessage
          ''Unexpected keys in response. `response.items` are Expected'')))"
    unfolding get_friends_def c
    by (simp add: get_friends_result_def friends_try_def pybind_def json_of_def sample_defs)
  from a b c d show ?thesis by blast
qed

text \<open>
  C6, as the code has it. When an answer of a call has, after the interceptors, a status
  for which \<^verbatim>\<open>raise_for_status\<close> raises, which is the status of a break rule and of no skip
  rule, the loop raises SystemExit at once, with no sleep and no further request, and the
  exit passes through each domain method.
\<close>

theorem break_exits_process:
  assumes "0 \<le> bf"
    and "\<forall>i<n. \<exists>r'. session_get tbl transport i = Inr r' \<and> retry_classified tbl (status_code r')"
    and "session_get tbl transport n = Inr r"
    and "raises_for_status (status_code r)"
    and "status_code r \<notin> set (matched_statuses tbl ''skip'')"
    and "status_code r \<in> set (matched_statuses tbl ''break'')"
  shows "retry_wrapper tbl transport bf =
           Some (Raised (SystemExit NoArg),
                 \<lparr>retries = Suc n, calls = Suc n, slept = map (\<lambda>k. bf * 2 ^ Suc k) [0..<n]\<rparr>)
         \<and> execute tbl transport = Some (Inl (SystemExit NoArg))
         \<and> get_users_ids tbl transport = Some (Inl (SystemExit NoArg))
         \<and> get_friends tbl transport = Some (Inl (SystemExit NoArg))"
proof -
  have loop: "retry_wrapper tbl transport b =
           Some (Raised (SystemExit NoArg),
                 \<lparr>retries = Suc n, calls = Suc n, slept = map (\<lambda>k. b * 2 ^ Suc k) [0..<n]\<rparr>)"
    if "0 \<le> b" for b
  proof -
    let ?st = "\<lparr>retries = n, calls = n, slept = map (\<lambda>k. b * 2 ^ Suc k) [0..<n]\<rparr>"
    have "attempt tbl b (session_get tbl transport) ?st =
            Done (Raised (SystemExit NoArg))
              (?st\<lparr>retries := Suc (retries ?st), calls := Suc (calls ?st)\<rparr>)"
      using assms(3-6) by (intro attempt_break) simp_all
    then have "retry_loop tbl b (session_get tbl transport) ?st =
            Some (Raised (SystemExit NoArg),
              ?st\<lparr>retries := Suc (retries ?st), calls := Suc (calls ?st)\<rparr>)"
      by (rule retry_loop_Done)
    then show ?thesis
      using retry_loop_after_retries [OF that assms(2)] by (simp add: retry_wrapper_def)
  qed
  have "(0::rat) \<le> 9 / 100" by simp
  from loop [OF this] loop [OF assms(1)] show ?thesis
    by (simp add: method_defs)
qed

text \<open>The scenario of the table \<^verbatim>\<open>{300: break, 400}\<close>: the process ends at the first answer.\<close>

theorem break_exits_process_witness:
  "retry_wrapper [(300, entry ''break'' 400)]
     (answers [] (ok_response (JDict [(''error'', error_object 300 ''bad'')]))) (9 / 100)
   = Some (Raised (SystemExit NoArg), \<lparr>retries = 1, calls = 1, slept = []\<rparr>)
   \<and> execute [(300, entry ''break'' 400)]
     (answers [] (ok_response (JDict [(''error'', error_object 300 ''bad'')])))
     = Some (Inl (SystemExit NoArg))
   \<and> get_users_ids [(300, entry ''break'' 400)]
     (answers [] (ok_response (JDict [(''error'', error_object 300 ''bad'')])))
     = Some (Inl (SystemExit NoArg))
   \<and> get_friends [(300, entry ''break'' 400)]
     (answers [] (ok_response (JDict [(''error'', error_object 300 ''bad'')])))
     = Some (Inl (SystemExit NoArg))"
proof -
  let ?tbl = "[(300, entry ''break'' 400)]"
  let ?transport = "answers [] (ok_response (JDict [(''error'', error_object 300 ''bad'')]))"
  let ?r = "(ok_response (JDict [(''error'', error_object 300 ''bad'')]))
              \<lparr>status_code := 400, reason := JStr ''bad''\<rparr>"
  have 1: "(0::rat) \<le> 9 / 100" by simp
  have 2: "\<forall>i<0. \<exists>r'. session_get ?tbl ?transport i = Inr r' \<and> retry_classified ?tbl (status_code r')"
    by simp
  have 3: "session_get ?tbl ?transport 0 = Inr ?r"
    by (simp add: eval_defs)
  have 4: "raises_for_status (status_code ?r)"
    by (simp add: raises_for_status_def sample_defs)
  have 5: "status_code ?r \<notin> set (matched_statuses ?tbl ''skip'')"
    by (simp add: eval_defs)
  have 6: "status_code ?r \<in> set (matched_statuses ?tbl ''break'')"
    by (simp add: eval_defs)
  show ?thesis
    using break_exits_process [OF 1 2 3 4 5 6] by simp
qed

text \<open>
  A break rule that shares its status 404 with a skip rule: the skip test comes first, the
  loop returns \<^verbatim>\<open>None\<close> and \<^verbatim>\<open>execute\<close> the empty list.
\<close>

theorem break_status_shared_with_skip_returns_none:
  "session_get [(1, entry ''skip'' 404), (2, entry ''break'' 404)]
     (answers [] (ok_response (JDict [(''error'', error_object 2 ''denied'')]))) 0
   = Inr ((ok_response (JDict [(''error'', error_object 2 ''denied'')]))
            \<lparr>status_code := 404, reason := JStr ''denied''\<rparr>)
   \<and> 404 \<in> set (matched_statuses [(1, entry ''skip'' 404), (2, entry ''break'' 404)] ''break'')
   \<and> retry_wrapper [(1, entry ''skip'' 404), (2, entry ''break'' 404)]
        (answers [] (ok_response (JDict [(''error'', error_object 2 ''denied'')]))) (9 / 100)
      = Some (ReturnedNone, \<lparr>retries = 1, calls = 1, slept = []\<rparr>)
   \<and> execute [(1, entry ''skip'' 404), (2, entry ''break'' 404)]
        (answers [] (ok_response (JDict [(''error'', error_object 2 ''denied'')])))
      = Some (Inr (JList []))"
proof -
  let ?tbl = "[(1, entry ''skip'' 404), (2, entry ''break'' 404)]"
  let ?transport = "answers [] (ok_response (JDict [(''error'', error_object 2 ''denied'')]))"
  have a: "session_get ?tbl ?transport 0 =
      Inr ((ok_response (JDict [(''error'', error_object 2 ''denied'')]))
            \<lparr>status_code := 404, reason := JStr ''denied''\<rparr>)"
    by (simp add: eval_defs)
  have b: "404 \<in> set (matched_statuses ?tbl ''break'')"
    by (simp add: eval_defs)
  have c: "retry_wrapper ?tbl ?transport (9 / 100) =
             Some (ReturnedNone, \<lparr>retries = 1, calls = 1, slept = []\<rparr>)"
    unfolding retry_wrapper_def
    by (rule retry_loop_Done)
      (simp add: attempt_def on_http_error_def initial_def on_success_def eval_defs)
  have d: "execute ?tbl ?transport = Some (Inr (JList []))"
    unfolding execute_def c by (simp add: execute_result_def)
  from a b c d show ?thesis by blast
qed

section \<open>The loop has no bound\<close>



section \<open>The order of the tests in the handler\<close>



section \<open>The domain methods on a malformed success\<close>

text \<open>
  What each method does with a successful response whose JSON object lacks the field it
  reads: two of them turn the KeyError into SystemExit, the third does not.
\<close>

lemma get_friends_result_missing_items:
  assumes "body r = Some (JDict kvs)"
    and "map_of kvs ''response'' = None
         \<or> (\<exists>resp. map_of kvs ''response'' = Some (JDict resp) \<and> map_of resp ''items'' = None)"
  shows "get_friends_result (Returned r) =
           Inl (SystemExit (ExitMessage
             ''Unexpected keys in response. `response.items` are Expected''))"
  using assms
  by (auto simp: get_friends_result_def friends_try_def pybind_def json_of_def)

lemma get_users_ids_result_missing_response:
  assumes "body r = Some (JDict kvs)" and "map_of kvs ''response'' = None"
  shows "get_users_ids_result (Returned r) =
           Inl (SystemExit (ExitMessage ''Unexpected keys in response. `response` are Expected''))"
  using assms
  by (simp add: get_users_ids_result_def users_ids_try_def pybind_def json_of_def)

lemma execute_result_missing_response:
  assumes "body r = Some (JDict kvs)" and "map_of kvs ''response'' = None"
  shows "execute_result (Returned r) = Inl (KeyError (JStr ''response''))"
  using assms
  by (simp add: execute_result_def pybind_def json_of_def)

text \<open>
  C9. Every domain method is to end the process with a response-shape fault when the
  expected field is missing from a successful response. On the successful answer with the
  body \<^verbatim>\<open>{}\<close>, \<^verbatim>\<open>get_users_ids\<close> and \<^verbatim>\<open>get_friends\<close> raise SystemExit with their message, and
  \<^verbatim>\<open>execute\<close>, which has no handler, lets the bare KeyError through.
\<close>

theorem execute_missing_response_raises_KeyError:
  "execute [] (answers [] (ok_response (JDict []))) = Some (Inl (KeyError (JStr ''response'')))
   \<and> get_users_ids [] (answers [] (ok_response (JDict []))) =
        Some (Inl (SystemExit (ExitMessage
          ''Unexpected keys in response. `response` are Expected'')))
   \<and> get_friends [] (answers [] (ok_response (JDict []))) =
        Some (Inl (SystemExit (ExitMessage
          ''Unexpected keys in response. `response.items` are Expected'')))"
proof -
  have "retry_wrapper [] (answers [] (ok_response (JDict []))) (9 / 100)
      = Some (Returned (ok_response (JDict [])), \<lparr>retries = 0, calls = 1, slept = []\<rparr>)"
    unfolding retry_wrapper_def
    by (rule retry_loop_Done) (simp add: attempt_def on_success_def initial_def eval_defs)
  then show ?thesis
    by (simp add: method_defs users_ids_try_def friends_try_def pybind_def json_of_def
        ok_response_def)
qed

end
